theory Spec2Isabelle
  imports Main
begin

section \<open>JavaScript values\<close>

text \<open>
  Every value the proxy inspects comes out of \<^verbatim>\<open>JSON.parse\<close>: the remote service's replies,
  the text block embedded in a tool result, the tokens file. A value is therefore a JSON
  value; \<open>None\<close> of type \<open>jsval\<close> is JavaScript's \<^verbatim>\<open>undefined\<close> (a property that is not
  there). Numbers are the integers (millisecond timestamps, lifetimes in seconds);
  fractions, exponents and the infinities of IEEE doubles are not represented. The
  properties of an object are kept as a list in insertion order and read with \<open>map_of\<close>.
\<close>

datatype json =
    JNull
  | JBool bool
  | JNum int
  | JStr string
  | JArr "json list"
  | JObj "(string \<times> json) list"

type_synonym jsval = "json option"

text \<open>The result of arithmetic: a number, or \<^verbatim>\<open>NaN\<close>.\<close>

datatype jsnum = Num int | NaN

text \<open>
  What can be thrown: the engine's \<^verbatim>\<open>TypeError\<close> (a property of \<^verbatim>\<open>null\<close> or
  \<^verbatim>\<open>undefined\<close> is read, a non-function is called, a property of a primitive is written in
  strict mode; the file is an ES module, hence strict), the \<^verbatim>\<open>SyntaxError\<close> of
  \<^verbatim>\<open>JSON.parse\<close>, and an \<^verbatim>\<open>Error\<close> with a message (a rejected request).
\<close>

datatype js_error = TypeError | SyntaxError | Error string

text \<open>
  What the language and the platform provide and the repository does not define. They are
  parameters of the model: every theorem below holds for all of them.
\<close>

record platform =
  JSON_parse :: "string \<Rightarrow> json option"
  JSON_stringify :: "json \<Rightarrow> string"
  toISOString :: "int \<Rightarrow> string"
  StringToNumber :: "string \<Rightarrow> jsnum"
  URL_hostname :: "string \<Rightarrow> string option"
  os_platform :: string
  error_message :: "js_error \<Rightarrow> string"

fun truthy :: "jsval \<Rightarrow> bool" where
  "truthy None = False"
| "truthy (Some JNull) = False"
| "truthy (Some (JBool b)) = b"
| "truthy (Some (JNum n)) = (n \<noteq> 0)"
| "truthy (Some (JStr s)) = (s \<noteq> [])"
| "truthy (Some (JArr xs)) = True"
| "truthy (Some (JObj kvs)) = True"

text \<open>\<^verbatim>\<open>a || b\<close>\<close>

definition js_or :: "jsval \<Rightarrow> jsval \<Rightarrow> jsval" where
  "js_or a b = (if truthy a then a else b)"

text \<open>
  \<^verbatim>\<open>a === b\<close>: primitives are compared by value, arrays and objects by identity; two
  values that were parsed separately are never the same object.
\<close>

fun strict_eq :: "jsval \<Rightarrow> jsval \<Rightarrow> bool" where
  "strict_eq (Some (JArr xs)) b = False"
| "strict_eq (Some (JObj kvs)) b = False"
| "strict_eq a b = (a = b)"

text \<open>
  \<^verbatim>\<open>v.k\<close> for the fixed property names the code reads (\<^verbatim>\<open>result\<close>, \<^verbatim>\<open>content\<close>,
  \<^verbatim>\<open>text\<close>, \<^verbatim>\<open>success\<close>, \<^verbatim>\<open>access_token\<close>, ...). None of them is a member of a built-in
  prototype, so a number, boolean, string or array has no such property; reading it from
  \<^verbatim>\<open>null\<close> or \<^verbatim>\<open>undefined\<close> throws.
\<close>

fun get_field :: "json \<Rightarrow> string \<Rightarrow> jsval" where
  "get_field (JObj kvs) k = map_of kvs k"
| "get_field v k = None"

fun get_prop :: "jsval \<Rightarrow> string \<Rightarrow> js_error + jsval" where
  "get_prop None k = Inl TypeError"
| "get_prop (Some JNull) k = Inl TypeError"
| "get_prop (Some v) k = Inr (get_field v k)"

text \<open>\<^verbatim>\<open>v[0]\<close>: the first element of an array, the first character of a string.\<close>

fun index0 :: "jsval \<Rightarrow> js_error + jsval" where
  "index0 None = Inl TypeError"
| "index0 (Some JNull) = Inl TypeError"
| "index0 (Some (JArr xs)) = Inr (case xs of [] \<Rightarrow> None | x # rest \<Rightarrow> Some x)"
| "index0 (Some (JStr s)) = Inr (case s of [] \<Rightarrow> None | c # rest \<Rightarrow> Some (JStr [c]))"
| "index0 (Some (JObj kvs)) = Inr (map_of kvs ''0'')"
| "index0 (Some v) = Inr None"

text \<open>Sequencing of steps that may throw.\<close>

fun bnd :: "js_error + 'a \<Rightarrow> ('a \<Rightarrow> js_error + 'b) \<Rightarrow> js_error + 'b" where
  "bnd (Inl e) f = Inl e"
| "bnd (Inr x) f = f x"

subsection \<open>Conversions\<close>

fun digits :: "nat \<Rightarrow> string" where
  "digits n = (if n < 10 then [char_of (48 + n)]
               else digits (n div 10) @ [char_of (48 + n mod 10)])"

definition show_int :: "int \<Rightarrow> string" where
  "show_int i = (if i < 0 then CHR ''-'' # digits (nat (- i)) else digits (nat i))"

fun join_comma :: "string list \<Rightarrow> string" where
  "join_comma [] = []"
| "join_comma [s] = s"
| "join_comma (s # rest) = s @ CHR '','' # join_comma rest"

text \<open>
  \<^verbatim>\<open>String(v)\<close>, as a template literal and \<^verbatim>\<open>JSON.parse\<close> apply it to their argument. An
  array is its elements joined by commas, \<^verbatim>\<open>null\<close> elements left empty.
\<close>

fun ToString_json :: "json \<Rightarrow> string" where
  "ToString_json JNull = ''null''"
| "ToString_json (JBool b) = (if b then ''true'' else ''false'')"
| "ToString_json (JNum n) = show_int n"
| "ToString_json (JStr s) = s"
| "ToString_json (JArr xs) =
     join_comma (map (\<lambda>x. if x = JNull then [] else ToString_json x) xs)"
| "ToString_json (JObj kvs) = ''[object Object]''"

definition ToString :: "jsval \<Rightarrow> string" where
  "ToString v = (case v of None \<Rightarrow> ''undefined'' | Some j \<Rightarrow> ToString_json j)"

text \<open>
  \<^verbatim>\<open>Number(v)\<close>, as the arithmetic and comparison operators apply it to an operand: an
  array or object goes through its string.
\<close>

fun ToNumber :: "platform \<Rightarrow> jsval \<Rightarrow> jsnum" where
  "ToNumber pl None = NaN"
| "ToNumber pl (Some JNull) = Num 0"
| "ToNumber pl (Some (JBool b)) = Num (if b then 1 else 0)"
| "ToNumber pl (Some (JNum n)) = Num n"
| "ToNumber pl (Some (JStr s)) = StringToNumber pl s"
| "ToNumber pl (Some v) = StringToNumber pl (ToString_json v)"

fun num_add :: "jsnum \<Rightarrow> jsnum \<Rightarrow> jsnum" where
  "num_add (Num a) (Num b) = Num (a + b)"
| "num_add a b = NaN"

fun num_mul :: "jsnum \<Rightarrow> jsnum \<Rightarrow> jsnum" where
  "num_mul (Num a) (Num b) = Num (a * b)"
| "num_mul a b = NaN"

text \<open>\<^verbatim>\<open>a > b\<close> on numbers: false as soon as one side is \<^verbatim>\<open>NaN\<close>.\<close>

fun num_gt :: "jsnum \<Rightarrow> jsnum \<Rightarrow> bool" where
  "num_gt (Num a) (Num b) = (a > b)"
| "num_gt a b = False"

fun num_truthy :: "jsnum \<Rightarrow> bool" where
  "num_truthy (Num n) = (n \<noteq> 0)"
| "num_truthy NaN = False"

section \<open>The credential store: class TokenCache\<close>

text \<open>
  The tokens file is known by what \<^verbatim>\<open>_loadAllTokens\<close> makes of it: it does not exist
  (\<open>Missing\<close>), it exists and reading or parsing it throws (\<open>Corrupt\<close>), or it parses to an
  object with the given properties (\<open>Holds\<close>). A file is identified with the value it
  denotes: \<^verbatim>\<open>JSON.stringify\<close> followed by \<^verbatim>\<open>JSON.parse\<close> gives the value back, and a
  property whose value is \<^verbatim>\<open>undefined\<close> or a function is not written. A file whose text
  parses to something that is not an object is not represented. \<open>writable\<close> says whether
  \<^verbatim>\<open>fs.writeFileSync\<close> succeeds (the cache directory exists, see \<^verbatim>\<open>ensureCacheDir\<close>); a
  failed write leaves the file as it was. \<open>write_calls\<close> counts the calls of
  \<^verbatim>\<open>fs.writeFileSync\<close>.
\<close>

datatype tokens_file = Missing | Corrupt | Holds "(string \<times> json) list"

record file_system =
  tokensFile :: tokens_file
  writable :: bool
  write_calls :: nat

record TokenCache =
  endpoint :: string
  environmentKey :: string

definition alnum :: "char \<Rightarrow> bool" where
  "alnum c = (let n = (of_char c :: nat)
              in (48 \<le> n \<and> n \<le> 57) \<or> (65 \<le> n \<and> n \<le> 90) \<or> (97 \<le> n \<and> n \<le> 122))"

text \<open>
  \<^verbatim>\<open>_getEnvironmentKey\<close> (the leading underscore of the source's names is dropped):
  \<^verbatim>\<open>new URL(endpoint).hostname.replace(/[^a-zA-Z0-9]/g, "_")\<close>, and \<^verbatim>\<open>"default"\<close> when the
  endpoint is not a URL.
\<close>

definition getEnvironmentKey :: "platform \<Rightarrow> string \<Rightarrow> string" where
  "getEnvironmentKey pl ep =
     (case URL_hostname pl ep of
        None \<Rightarrow> ''default''
      | Some h \<Rightarrow> map (\<lambda>c. if alnum c then c else CHR ''_'') h)"

definition new_TokenCache :: "platform \<Rightarrow> string \<Rightarrow> TokenCache" where
  "new_TokenCache pl ep = \<lparr>endpoint = ep, environmentKey = getEnvironmentKey pl ep\<rparr>"

text \<open>
  Defining a property of an object, as a spread or an object literal does: the value is
  replaced where the key is, and the key is added at the end otherwise.
\<close>

fun obj_put :: "string \<Rightarrow> json \<Rightarrow> (string \<times> json) list \<Rightarrow> (string \<times> json) list" where
  "obj_put k v [] = [(k, v)]"
| "obj_put k v ((k', v') # rest) =
     (if k' = k then (k, v) # rest else (k', v') # obj_put k v rest)"

text \<open>
  \<^verbatim>\<open>o[k] = v\<close> on a parsed object, \<open>v\<close> an object. An own property is overwritten;
  otherwise the key \<^verbatim>\<open>__proto__\<close> reaches the setter of \<^verbatim>\<open>Object.prototype\<close>, which
  changes the prototype and adds no property.
\<close>

definition obj_assign :: "string \<Rightarrow> json \<Rightarrow> (string \<times> json) list \<Rightarrow> (string \<times> json) list" where
  "obj_assign k v kvs =
     (if k \<notin> fst ` set kvs \<and> k = ''__proto__'' then kvs else obj_put k v kvs)"

fun obj_delete :: "string \<Rightarrow> (string \<times> json) list \<Rightarrow> (string \<times> json) list" where
  "obj_delete k [] = []"
| "obj_delete k ((k', v') # rest) =
     (if k' = k then obj_delete k rest else (k', v') # obj_delete k rest)"

definition loadAllTokens :: "file_system \<Rightarrow> (string \<times> json) list" where
  "loadAllTokens fs =
     (case tokensFile fs of
        Missing \<Rightarrow> []
      | Corrupt \<Rightarrow> []
      | Holds kvs \<Rightarrow> kvs)"

definition metadata :: "platform \<Rightarrow> int \<Rightarrow> json" where
  "metadata pl now =
     JObj [(''last_updated'', JStr (toISOString pl now)),
           (''version'', JStr ''2.0''),
           (''description'', JStr ''Multi-environment token cache for Theta Health MCP'')]"

definition saveAllTokens ::
  "platform \<Rightarrow> int \<Rightarrow> (string \<times> json) list \<Rightarrow> file_system \<Rightarrow> file_system \<times> bool" where
  "saveAllTokens pl now allTokens fs =
     (let tokensData = obj_put ''_metadata'' (metadata pl now) allTokens
      in if writable fs
         then (fs\<lparr>tokensFile := Holds tokensData, write_calls := Suc (write_calls fs)\<rparr>, True)
         else (fs\<lparr>write_calls := Suc (write_calls fs)\<rparr>, False))"

text \<open>
  The argument of \<^verbatim>\<open>saveToken\<close>. Its callers compute \<^verbatim>\<open>expires_at\<close> by arithmetic, so it
  is a number or \<^verbatim>\<open>NaN\<close>, or is left out (\<open>None\<close>). The \<^verbatim>\<open>endpoint\<close> the callers pass
  is not read: the record takes \<^verbatim>\<open>this.endpoint\<close>.
\<close>

record tokenData =
  access_token :: jsval
  token_type :: jsval
  expires_at :: "jsnum option"
  refresh_token :: jsval
  scope :: jsval

definition seven_days :: int where
  "seven_days = 7 * 24 * 60 * 60 * 1000"

text \<open>A property of an object literal as it reaches the file: left out when \<^verbatim>\<open>undefined\<close>.\<close>

definition field :: "string \<Rightarrow> jsval \<Rightarrow> (string \<times> json) list" where
  "field k v = (case v of None \<Rightarrow> [] | Some j \<Rightarrow> [(k, j)])"

definition cacheData :: "int \<Rightarrow> TokenCache \<Rightarrow> tokenData \<Rightarrow> json" where
  "cacheData now tc td =
     JObj (field ''access_token'' (access_token td)
         @ field ''token_type'' (js_or (token_type td) (Some (JStr ''Bearer'')))
         @ [(''expires_at'',
              JNum (case expires_at td of
                      Some (Num n) \<Rightarrow> if n \<noteq> 0 then n else now + seven_days
                    | Some NaN \<Rightarrow> now + seven_days
                    | None \<Rightarrow> now + seven_days))]
         @ field ''refresh_token'' (refresh_token td)
         @ field ''scope'' (scope td)
         @ [(''created_at'', JNum now),
            (''endpoint'', JStr (endpoint tc)),
            (''environment'', JStr (environmentKey tc)),
            (''last_used'', JNum now)])"

text \<open>
  \<^verbatim>\<open>saveToken\<close>. \<open>now\<close> is \<^verbatim>\<open>Date.now()\<close>: the clock is read once for a synchronous run
  of a handler.
\<close>

definition saveToken ::
  "platform \<Rightarrow> int \<Rightarrow> TokenCache \<Rightarrow> tokenData \<Rightarrow> file_system \<Rightarrow> file_system \<times> bool" where
  "saveToken pl now tc td fs =
     (let allTokens = loadAllTokens fs;
          allTokens = obj_assign (environmentKey tc) (cacheData now tc td) allTokens
      in saveAllTokens pl now allTokens fs)"

text \<open>
  \<^verbatim>\<open>allTokens[this.environmentKey]\<close> is read through the prototype chain: for a key that
  is not an own property and names a member of \<^verbatim>\<open>Object.prototype\<close> the result is that
  built-in function (for \<^verbatim>\<open>__proto__\<close>, the prototype object itself), which is truthy and
  has none of the properties of a token record.
\<close>

definition Object_prototype_members :: "string list" where
  "Object_prototype_members =
     [''__proto__'', ''constructor'', ''hasOwnProperty'', ''isPrototypeOf'',
      ''propertyIsEnumerable'', ''toLocaleString'', ''toString'', ''valueOf'',
      ''__defineGetter__'', ''__defineSetter__'', ''__lookupGetter__'', ''__lookupSetter__'']"



definition clearToken :: "platform \<Rightarrow> int \<Rightarrow> TokenCache \<Rightarrow> file_system \<Rightarrow> file_system" where
  "clearToken pl now tc fs =
     (let allTokens = loadAllTokens fs
      in if truthy (map_of allTokens (environmentKey tc))
            \<or> (map_of allTokens (environmentKey tc) = None
                \<and> environmentKey tc \<in> set Object_prototype_members)
         then fst (saveAllTokens pl now (obj_delete (environmentKey tc) allTokens) fs)
         else fs)"



section \<open>The proxy: class HttpMcpProxy\<close>

text \<open>
  A timer set by \<^verbatim>\<open>startAutoPolling\<close>: the variables its \<^verbatim>\<open>poll\<close> closure captures, the
  defaults of the destructuring applied.
\<close>

record polling_session =
  state :: jsval
  check_interval :: jsval
  max_wait_time :: jsval
  startTime :: int

text \<open>
  The fields of the proxy, and what it has done to the outside: the file system, the
  commands handed to \<^verbatim>\<open>exec\<close> (oldest first) and the polling timers started. In
  \<open>token\<close>, \<open>None\<close> stands for \<^verbatim>\<open>null\<close> as well as for \<^verbatim>\<open>undefined\<close>: the code tests the
  field for truthiness and compares it with strings only.
\<close>

record proxy =
  httpServiceUrl :: string
  token :: jsval
  tokenCache :: TokenCache
  lastBrowserOpenTime :: int
  files :: file_system
  exec_calls :: "string list"
  pollers :: "polling_session list"

definition browserOpenDebounceTime :: int where
  "browserOpenDebounceTime = 10000"

text \<open>
  The constructor, given the two environment variables and the file system. The call of
  \<^verbatim>\<open>loadCachedToken\<close> that ends it is \<open>loadCachedToken\<close> below.
\<close>

definition new_HttpMcpProxy ::
  "platform \<Rightarrow> string option \<Rightarrow> string option \<Rightarrow> file_system \<Rightarrow> proxy" where
  "new_HttpMcpProxy pl THETA_HEALTH_ENDPOINT THETA_HEALTH_TOKEN fs =
     (let url = (case THETA_HEALTH_ENDPOINT of
                   None \<Rightarrow> ''https://mcp.thetahealth.ai/mcp''
                 | Some u \<Rightarrow> if u = [] then ''https://mcp.thetahealth.ai/mcp'' else u)
      in \<lparr>httpServiceUrl = url,
          token = (case THETA_HEALTH_TOKEN of
                     None \<Rightarrow> None
                   | Some t \<Rightarrow> if t = [] then None else Some (JStr t)),
          tokenCache = new_TokenCache pl url,
          lastBrowserOpenTime = 0,
          files = fs,
          exec_calls = [],
          pollers = []\<rparr>)"

subsection \<open>Outbound requests\<close>

text \<open>
  The part of a request body that \<^verbatim>\<open>makeHttpRequest\<close> looks at: \<^verbatim>\<open>data.method\<close> (the
  field \<open>rpc_method\<close>) and \<^verbatim>\<open>data.params?.name\<close>. Of the headers only \<^verbatim>\<open>Authorization\<close> is modelled. The reply of
  the remote service is an input of the functions that await it: a rejection, or the
  parsed body.
\<close>

record request =
  rpc_method :: string
  name :: jsval

definition authNotRequiredTools :: "string list" where
  "authNotRequiredTools =
     [''start_authentication'', ''get_code'', ''oauth_exchange_code_for_token'',
      ''oauth_refresh_token'', ''oauth_validate_token'',
      ''tools/list'', ''resources/list'', ''prompts/list'']"

text \<open>\<^verbatim>\<open>authNotRequiredTools.includes(v)\<close>: only a string can be in the list.\<close>

definition array_includes :: "string list \<Rightarrow> jsval \<Rightarrow> bool" where
  "array_includes xs v = (case v of Some (JStr s) \<Rightarrow> s \<in> set xs | _ \<Rightarrow> False)"

definition needsAuth :: "request \<Rightarrow> bool" where
  "needsAuth data =
     (\<not> (rpc_method data = ''tools/list''
         \<or> rpc_method data = ''resources/list''
         \<or> rpc_method data = ''prompts/list''
         \<or> (rpc_method data = ''tools/call'' \<and> array_includes authNotRequiredTools (name data))))"

text \<open>\<^verbatim>\<open>headers["Authorization"]\<close> as \<^verbatim>\<open>makeHttpRequest\<close> sends it; \<open>None\<close> when not set.\<close>

definition Authorization :: "proxy \<Rightarrow> request \<Rightarrow> string option" where
  "Authorization s data =
     (if needsAuth data \<and> truthy (token s)
      then Some (''Bearer '' @ ToString (token s))
      else None)"

subsection \<open>The response interceptor\<close>

text \<open>
  The guard \<^verbatim>\<open>response.result && response.result.content && response.result.content[0]\<close>
  shared by the classifiers and the handlers.
\<close>

definition has_first_content :: "jsval \<Rightarrow> js_error + bool" where
  "has_first_content response =
     bnd (get_prop response ''result'') (\<lambda>result.
       if \<not> truthy result then Inr False
       else bnd (get_prop result ''content'') (\<lambda>content.
         if \<not> truthy content then Inr False
         else bnd (index0 content) (\<lambda>first. Inr (truthy first))))"

text \<open>\<^verbatim>\<open>JSON.parse(response.result.content[0].text)\<close>\<close>

definition parse_first_text :: "platform \<Rightarrow> jsval \<Rightarrow> js_error + json" where
  "parse_first_text pl response =
     bnd (get_prop response ''result'') (\<lambda>result.
     bnd (get_prop result ''content'') (\<lambda>content.
     bnd (index0 content) (\<lambda>first.
     bnd (get_prop first ''text'') (\<lambda>text.
       case JSON_parse pl (ToString text) of
         None \<Rightarrow> Inl SyntaxError
       | Some parsed \<Rightarrow> Inr parsed))))"

text \<open>
  The body of \<^verbatim>\<open>isTokenAuthResponse\<close> inside its \<^verbatim>\<open>try\<close>: the value of the \<^verbatim>\<open>&&\<close> chain
  (the first falsy operand, or the last one), or what is thrown.
\<close>

definition isTokenAuthResponse_try :: "platform \<Rightarrow> json \<Rightarrow> js_error + jsval" where
  "isTokenAuthResponse_try pl response =
     bnd (has_first_content (Some response)) (\<lambda>guard.
       if guard
       then bnd (parse_first_text pl (Some response)) (\<lambda>content.
            bnd (get_prop (Some content) ''success'') (\<lambda>success.
              if \<not> strict_eq success (Some (JBool True)) then Inr (Some (JBool False))
              else bnd (get_prop (Some content) ''access_token'') (\<lambda>access.
                if \<not> truthy access then Inr access
                else bnd (get_prop (Some content) ''token_type'') (\<lambda>type.
                  Inr (Some (JBool (strict_eq type (Some (JStr ''Bearer'')))))))))
       else Inr (Some (JBool False)))"

definition isTokenAuthResponse :: "platform \<Rightarrow> json \<Rightarrow> jsval" where
  "isTokenAuthResponse pl response =
     (case isTokenAuthResponse_try pl response of
        Inl error \<Rightarrow> Some (JBool False)
      | Inr v \<Rightarrow> v)"

definition isAutoOpenBrowserResponse_try :: "platform \<Rightarrow> json \<Rightarrow> js_error + jsval" where
  "isAutoOpenBrowserResponse_try pl response =
     bnd (has_first_content (Some response)) (\<lambda>guard.
       if guard
       then bnd (parse_first_text pl (Some response)) (\<lambda>content.
            bnd (get_prop (Some content) ''auto_open_browser'') (\<lambda>flag.
              if \<not> strict_eq flag (Some (JBool True)) then Inr (Some (JBool False))
              else get_prop (Some content) ''authorization_url''))
       else Inr (Some (JBool False)))"

definition isAutoOpenBrowserResponse :: "platform \<Rightarrow> json \<Rightarrow> jsval" where
  "isAutoOpenBrowserResponse pl response =
     (case isAutoOpenBrowserResponse_try pl response of
        Inl error \<Rightarrow> Some (JBool False)
      | Inr v \<Rightarrow> v)"

text \<open>\<^verbatim>\<open>v.substring(0, 20)\<close>: only a string has it; calling it on anything else throws.\<close>

definition substring20 :: "jsval \<Rightarrow> js_error + string" where
  "substring20 v = (case v of Some (JStr s) \<Rightarrow> Inr (take 20 s) | _ \<Rightarrow> Inl TypeError)"

definition one_hour_seconds :: int where
  "one_hour_seconds = 3600"

text \<open>
  \<^verbatim>\<open>handleTokenAuthResponse\<close>. Everything that can throw comes before the first assignment
  (the last being \<^verbatim>\<open>newToken.substring\<close> in the log line), so the \<^verbatim>\<open>catch\<close> returns false
  with the proxy as it was.
\<close>

definition handleTokenAuthResponse_try ::
  "platform \<Rightarrow> int \<Rightarrow> json \<Rightarrow> proxy \<Rightarrow> js_error + proxy \<times> bool" where
  "handleTokenAuthResponse_try pl now response s =
     bnd (has_first_content (Some response)) (\<lambda>guard.
       if guard
       then bnd (parse_first_text pl (Some response)) (\<lambda>content.
            bnd (get_prop (Some content) ''access_token'') (\<lambda>newToken.
              if truthy newToken \<and> \<not> strict_eq newToken (token s)
              then bnd (substring20 newToken) (\<lambda>shown.
                let td = \<lparr>access_token = newToken,
                          token_type = js_or (get_field content ''token_type'') (Some (JStr ''Bearer'')),
                          expires_at = Some (num_add (Num now)
                            (num_mul (ToNumber pl (js_or (get_field content ''expires_in'')
                                                         (Some (JNum one_hour_seconds))))
                                     (Num 1000))),
                          refresh_token = get_field content ''refresh_token'',
                          scope = get_field content ''scope''\<rparr>
                in Inr (s\<lparr>token := newToken,
                          files := fst (saveToken pl now (tokenCache s) td (files s))\<rparr>, True))
              else Inr (s, False)))
       else Inr (s, False))"

definition handleTokenAuthResponse :: "platform \<Rightarrow> int \<Rightarrow> json \<Rightarrow> proxy \<Rightarrow> proxy \<times> bool" where
  "handleTokenAuthResponse pl now response s =
     (case handleTokenAuthResponse_try pl now response s of
        Inl error \<Rightarrow> (s, False)
      | Inr r \<Rightarrow> r)"

subsection \<open>The out-of-band authorization flow\<close>

text \<open>
  \<^verbatim>\<open>startAutoPolling\<close> up to its first timer. It is an \<^verbatim>\<open>async\<close> function: destructuring
  \<^verbatim>\<open>null\<close> or \<^verbatim>\<open>undefined\<close> rejects its promise and sets no timer; nothing is thrown at the
  caller. A default of the destructuring applies to a property that is \<^verbatim>\<open>undefined\<close>.
\<close>

definition startAutoPolling :: "int \<Rightarrow> jsval \<Rightarrow> proxy \<Rightarrow> proxy" where
  "startAutoPolling now pollingConfig s =
     (case pollingConfig of
        None \<Rightarrow> s
      | Some JNull \<Rightarrow> s
      | Some config \<Rightarrow>
          s\<lparr>pollers := pollers s @
              [\<lparr>state = get_field config ''state'',
                check_interval =
                  (case get_field config ''check_interval'' of
                     None \<Rightarrow> Some (JNum 3) | Some v \<Rightarrow> Some v),
                max_wait_time =
                  (case get_field config ''max_wait_time'' of
                     None \<Rightarrow> Some (JNum 300) | Some v \<Rightarrow> Some v),
                startTime = now\<rparr>]\<rparr>)"

text \<open>The command for \<^verbatim>\<open>exec\<close>, by \<^verbatim>\<open>os.platform()\<close>.\<close>

definition open_command :: "platform \<Rightarrow> jsval \<Rightarrow> string" where
  "open_command pl authorization_url =
     (if os_platform pl = ''darwin'' then ''open \"'' @ ToString authorization_url @ ''\"''
      else if os_platform pl = ''win32'' then ''start \"'' @ ToString authorization_url @ ''\"''
      else ''xdg-open \"'' @ ToString authorization_url @ ''\"'')"

text \<open>
  \<^verbatim>\<open>if (content.auto_polling && content.auto_polling.enabled)
    this.startAutoPolling(content.auto_polling)\<close>, which both branches of the handler end with.
\<close>

definition poll_if_enabled :: "int \<Rightarrow> json \<Rightarrow> proxy \<Rightarrow> proxy" where
  "poll_if_enabled now content s =
     (let auto_polling = get_field content ''auto_polling''
      in if truthy auto_polling
            \<and> truthy (case auto_polling of None \<Rightarrow> None | Some p \<Rightarrow> get_field p ''enabled'')
         then startAutoPolling now auto_polling s
         else s)"

text \<open>
  \<^verbatim>\<open>handleAutoOpenBrowserResponse\<close>. Within the debounce time of the last opening of the
  browser it prints the link and starts polling if the payload asks for it. Otherwise it
  records the time, clears the stored and the cached token, hands the command to \<^verbatim>\<open>exec\<close>
  (a failure of the command is reported to a callback that prints the link) and starts
  polling. The listing of \<^verbatim>\<open>client_instructions\<close> only prints. What can throw comes
  before the first assignment.
\<close>

definition handleAutoOpenBrowserResponse_try ::
  "platform \<Rightarrow> int \<Rightarrow> json \<Rightarrow> proxy \<Rightarrow> js_error + proxy \<times> bool" where
  "handleAutoOpenBrowserResponse_try pl now response s =
     bnd (has_first_content (Some response)) (\<lambda>guard.
       if guard
       then bnd (parse_first_text pl (Some response)) (\<lambda>content.
            bnd (get_prop (Some content) ''auto_open_browser'') (\<lambda>flag.
              if truthy flag \<and> truthy (get_field content ''authorization_url'')
              then (let currentTime = now;
                        timeSinceLastOpen = currentTime - lastBrowserOpenTime s
                    in if timeSinceLastOpen < browserOpenDebounceTime
                       then Inr (poll_if_enabled now content s, True)
                       else (let s1 = s\<lparr>lastBrowserOpenTime := currentTime\<rparr>;
                                 s2 = s1\<lparr>files := clearToken pl now (tokenCache s1) (files s1)\<rparr>;
                                 s3 = s2\<lparr>token := None\<rparr>;
                                 s4 = s3\<lparr>exec_calls := exec_calls s3 @
                                          [open_command pl (get_field content ''authorization_url'')]\<rparr>
                             in Inr (poll_if_enabled now content s4, True)))
              else Inr (s, False)))
       else Inr (s, False))"

definition handleAutoOpenBrowserResponse ::
  "platform \<Rightarrow> int \<Rightarrow> json \<Rightarrow> proxy \<Rightarrow> proxy \<times> bool" where
  "handleAutoOpenBrowserResponse pl now response s =
     (case handleAutoOpenBrowserResponse_try pl now response s of
        Inl error \<Rightarrow> (s, False)
      | Inr r \<Rightarrow> r)"

text \<open>
  How one run of the \<^verbatim>\<open>poll\<close> closure ends: the timeout message, the token saved, another
  timer set, or one of the two failure messages.
\<close>

datatype poll_outcome = timed_out | completed | rescheduled | session_expired | unauthorized

text \<open>
  One run of \<^verbatim>\<open>poll\<close> for a session. \<open>now\<close> is the clock when the run starts and the
  timeout is tested; \<open>reply\<close> is what the status request gives (a rejection or the parsed
  body) and \<open>later\<close> the clock when it has arrived. Whatever is thrown after the timeout
  test is caught and sets another timer.
\<close>

definition poll_try ::
  "platform \<Rightarrow> int \<Rightarrow> json \<Rightarrow> proxy \<Rightarrow> js_error + proxy \<times> poll_outcome" where
  "poll_try pl later response s =
     bnd (get_prop (Some response) ''status'') (\<lambda>status.
       if strict_eq status (Some (JStr ''completed''))
       then bnd (substring20 (get_field response ''token'')) (\<lambda>shown.
              let td = \<lparr>access_token = get_field response ''token'',
                        token_type = get_field response ''token_type'',
                        expires_at = Some (Num (later + seven_days)),
                        refresh_token = None,
                        scope = None\<rparr>
              in Inr (s\<lparr>files := fst (saveToken pl later (tokenCache s) td (files s)),
                        token := get_field response ''token''\<rparr>, completed))
       else if strict_eq status (Some (JStr ''pending''))
               \<or> strict_eq status (Some (JStr ''auth_code_generated''))
       then Inr (s, rescheduled)
       else if strict_eq status (Some (JStr ''expired'')) then Inr (s, session_expired)
       else if strict_eq status (Some (JStr ''unauthorized'')) then Inr (s, unauthorized)
       else Inr (s, rescheduled))"

definition poll ::
  "platform \<Rightarrow> polling_session \<Rightarrow> int \<Rightarrow> js_error + json \<Rightarrow> int \<Rightarrow> proxy
     \<Rightarrow> proxy \<times> poll_outcome" where
  "poll pl session now reply later s =
     (if num_gt (Num (now - startTime session))
                (num_mul (ToNumber pl (max_wait_time session)) (Num 1000))
      then (s, timed_out)
      else (case reply of
              Inl error \<Rightarrow> (s, rescheduled)
            | Inr response \<Rightarrow>
                (case poll_try pl later response s of
                   Inl error \<Rightarrow> (s, rescheduled)
                 | Inr r \<Rightarrow> r)))"

text \<open>
  The loop that the timers make. Each element of the list is one firing of the timer: the
  clock when \<^verbatim>\<open>poll\<close> starts, what the status request gives, and the clock when that has
  arrived. The loop goes on to the next firing when \<^verbatim>\<open>poll\<close> has set another timer and
  ends otherwise; \<open>None\<close> says that the firings are used up and a timer is pending.
\<close>

fun polling_loop ::
  "platform \<Rightarrow> polling_session \<Rightarrow> (int \<times> (js_error + json) \<times> int) list \<Rightarrow> proxy
     \<Rightarrow> proxy \<times> poll_outcome option" where
  "polling_loop pl session [] s = (s, None)"
| "polling_loop pl session ((now, reply, later) # firings) s =
     (let (s', outcome) = poll pl session now reply later s
      in if outcome = rescheduled then polling_loop pl session firings s'
         else (s', Some outcome))"

subsection \<open>Refreshing and loading the cached token\<close>





subsection \<open>The tool-call handler\<close>

definition text_content :: "string \<Rightarrow> json" where
  "text_content t = JArr [JObj [(''type'', JStr ''text''), (''text'', JStr t)]]"

text \<open>
  The handler of \<^verbatim>\<open>CallToolRequestSchema\<close>, given the reply to the forwarded call: the new
  proxy and the \<^verbatim>\<open>content\<close> returned to the caller. Reading \<^verbatim>\<open>response.result\<close> for the
  return value throws when the reply is \<^verbatim>\<open>null\<close>; the \<^verbatim>\<open>catch\<close> then returns the message,
  as it does for a rejected request.
\<close>

definition returned_content :: "platform \<Rightarrow> json \<Rightarrow> js_error + json" where
  "returned_content pl response =
     bnd (get_prop (Some response) ''result'') (\<lambda>result.
       let content = (case result of
                        None \<Rightarrow> None
                      | Some JNull \<Rightarrow> None
                      | Some r \<Rightarrow> get_field r ''content'');
           fallback = text_content (JSON_stringify pl
                        (case result of
                           None \<Rightarrow> JObj []
                         | Some r \<Rightarrow> if truthy result then r else JObj []))
       in case content of
            None \<Rightarrow> Inr fallback
          | Some c \<Rightarrow> if truthy content then Inr c else Inr fallback)"

definition CallTool_handler ::
  "platform \<Rightarrow> int \<Rightarrow> js_error + json \<Rightarrow> proxy \<Rightarrow> proxy \<times> json" where
  "CallTool_handler pl now reply s =
     (case reply of
        Inl error \<Rightarrow> (s, text_content (''Error: '' @ error_message pl error))
      | Inr response \<Rightarrow>
          (let s1 = (if truthy (isTokenAuthResponse pl response)
                     then fst (handleTokenAuthResponse pl now response s) else s);
               s2 = (if truthy (isAutoOpenBrowserResponse pl response)
                     then fst (handleAutoOpenBrowserResponse pl now response s1) else s1)
           in case returned_content pl response of
                Inl error \<Rightarrow> (s2, text_content (''Error: '' @ error_message pl error))
              | Inr content \<Rightarrow> (s2, content)))"

section \<open>Reading the store, and the allow-list in the specification's words\<close>

text \<open>The record that the tokens file holds under an environment key, and a field of it.\<close>

definition stored :: "file_system \<Rightarrow> string \<Rightarrow> jsval" where
  "stored fs key = (case tokensFile fs of Holds kvs \<Rightarrow> map_of kvs key | _ \<Rightarrow> None)"

definition stored_field :: "file_system \<Rightarrow> string \<Rightarrow> string \<Rightarrow> jsval" where
  "stored_field fs key f = (case stored fs key of None \<Rightarrow> None | Some r \<Rightarrow> get_field r f)"

text \<open>
  An environment key that is neither the reserved \<^verbatim>\<open>_metadata\<close> key, which every write
  overwrites with the metadata block, nor \<^verbatim>\<open>__proto__\<close>, under which an assignment stores
  nothing.
\<close>

definition ordinary_key :: "string \<Rightarrow> bool" where
  "ordinary_key key = (key \<noteq> ''_metadata'' \<and> key \<noteq> ''__proto__'')"

text \<open>
  The unauthenticated allow-list as the specification words it: the listing methods, and a
  \<^verbatim>\<open>tools/call\<close> of a tool named by one of the auth-bootstrap names or one of the listing
  names.
\<close>

definition listing_methods :: "string list" where
  "listing_methods = [''tools/list'', ''resources/list'', ''prompts/list'']"

definition auth_bootstrap_names :: "string list" where
  "auth_bootstrap_names =
     [''start_authentication'', ''get_code'', ''oauth_exchange_code_for_token'',
      ''oauth_refresh_token'', ''oauth_validate_token'']"

definition allow_listed :: "request \<Rightarrow> bool" where
  "allow_listed data =
     (rpc_method data \<in> set listing_methods
      \<or> (rpc_method data = ''tools/call''
          \<and> (case name data of
                Some (JStr n) \<Rightarrow> n \<in> set auth_bootstrap_names \<or> n \<in> set listing_methods
              | _ \<Rightarrow> False)))"



section \<open>Example inputs\<close>

text \<open>
  A platform for the examples: Linux, a \<^verbatim>\<open>JSON.parse\<close> that knows the payload texts
  below and rejects every other text, and a \<^verbatim>\<open>JSON.stringify\<close> for the empty object, the
  only value the examples serialize.
\<close>

definition auth_text :: string where
  "auth_text = ''{\"success\":true,\"access_token\":\"abc123\",\"token_type\":\"Bearer\"}''"

definition auth_payload :: json where
  "auth_payload =
     JObj [(''success'', JBool True), (''access_token'', JStr ''abc123''),
           (''token_type'', JStr ''Bearer'')]"

definition auth_lifetime_text :: string where
  "auth_lifetime_text =
     ''{\"success\":true,\"access_token\":\"abc123\",\"token_type\":\"Bearer\",\"expires_in\":120}''"

definition auth_lifetime_payload :: json where
  "auth_lifetime_payload =
     JObj [(''success'', JBool True), (''access_token'', JStr ''abc123''),
           (''token_type'', JStr ''Bearer''), (''expires_in'', JNum 120)]"

definition browser_text :: string where
  "browser_text =
     ''{\"auto_open_browser\":true,\"authorization_url\":\"https://auth.example/login\",\"auto_polling\":{\"enabled\":true,\"state\":\"st-1\"}}''"

definition browser_payload :: json where
  "browser_payload =
     JObj [(''auto_open_browser'', JBool True),
           (''authorization_url'', JStr ''https://auth.example/login''),
           (''auto_polling'', JObj [(''enabled'', JBool True), (''state'', JStr ''st-1'')])]"

definition refresh_text :: string where
  "refresh_text = ''{\"success\":true,\"access_token\":\"tok-new\",\"expires_in\":3600}''"

definition refresh_payload :: json where
  "refresh_payload =
     JObj [(''success'', JBool True), (''access_token'', JStr ''tok-new''),
           (''expires_in'', JNum 3600)]"

definition backdated_refresh_text :: string where
  "backdated_refresh_text =
     ''{\"success\":true,\"access_token\":\"tok-new\",\"expires_in\":-1500}''"

definition backdated_refresh_payload :: json where
  "backdated_refresh_payload =
     JObj [(''success'', JBool True), (''access_token'', JStr ''tok-new''),
           (''expires_in'', JNum (- 1500))]"

definition example_parse :: "string \<Rightarrow> json option" where
  "example_parse t =
     (if t = auth_text then Some auth_payload
      else if t = auth_lifetime_text then Some auth_lifetime_payload
      else if t = browser_text then Some browser_payload
      else if t = refresh_text then Some refresh_payload
      else if t = backdated_refresh_text then Some backdated_refresh_payload
      else None)"

definition example_platform :: platform where
  "example_platform =
     \<lparr>JSON_parse = example_parse,
      JSON_stringify = (\<lambda>j. ''{}''),
      toISOString = (\<lambda>t. ''2026-01-01T00:00:00.000Z''),
      StringToNumber = (\<lambda>s. NaN),
      URL_hostname = (\<lambda>u. Some ''mcp.thetahealth.ai''),
      os_platform = ''linux'',
      error_message = (\<lambda>e. ''request failed'')\<rparr>"

text \<open>A tool result whose content is one text block.\<close>

definition tool_reply :: "string \<Rightarrow> json" where
  "tool_reply t = JObj [(''result'', JObj [(''content'', text_content t)])]"

definition example_cache :: TokenCache where
  "example_cache =
     \<lparr>endpoint = ''https://mcp.thetahealth.ai/mcp'', environmentKey = ''mcp_thetahealth_ai''\<rparr>"

definition no_file :: file_system where
  "no_file = \<lparr>tokensFile = Missing, writable = True, write_calls = 0\<rparr>"

definition corrupt_file :: file_system where
  "corrupt_file = \<lparr>tokensFile = Corrupt, writable = True, write_calls = 0\<rparr>"




definition example_token :: tokenData where
  "example_token =
     \<lparr>access_token = Some (JStr ''abc123''), token_type = None, expires_at = None,
      refresh_token = None, scope = None\<rparr>"

text \<open>The proxy as the constructor leaves it, without and with a stored token.\<close>

definition fresh_proxy :: proxy where
  "fresh_proxy =
     \<lparr>httpServiceUrl = ''https://mcp.thetahealth.ai/mcp'', token = None,
      tokenCache = example_cache, lastBrowserOpenTime = 0, files = no_file,
      exec_calls = [], pollers = []\<rparr>"


definition example_session :: polling_session where
  "example_session =
     \<lparr>state = Some (JStr ''st-1''), check_interval = Some (JNum 3),
      max_wait_time = Some (JNum 300), startTime = 1000000\<rparr>"

definition completed_reply :: json where
  "completed_reply =
     JObj [(''status'', JStr ''completed''), (''token'', JStr ''abc123''),
           (''token_type'', JStr ''Bearer'')]"

definition pending_reply :: json where
  "pending_reply = JObj [(''status'', JStr ''pending'')]"

text \<open>
  Two firings of the timer of \<open>example_session\<close> that end in another timer: an answer
  \<^verbatim>\<open>pending\<close> after three seconds and a failed request after six.
\<close>

definition waiting :: "(int \<times> (js_error + json) \<times> int) list" where
  "waiting =
     [(1003000, Inr pending_reply, 1003150),
      (1006150, Inl (Error ''socket hang up''), 1006200)]"






section \<open>Properties of the credential store\<close>

lemma map_of_obj_put: "map_of (obj_put k v kvs) = (map_of kvs)(k \<mapsto> v)"
  by (induction kvs) auto




lemma obj_assign_empty:
  "ordinary_key k \<Longrightarrow> obj_assign k v [] = [(k, v)]"
  by (simp add: obj_assign_def ordinary_key_def)

text \<open>
  C10. The tokens file exists and cannot be parsed, and the write succeeds. A save for the
  current environment (its key being an ordinary one) leaves a file that holds exactly the
  record just built under the environment's key, followed by the metadata block; whatever
  other environments the unparseable file recorded, the new file has no record of them.
\<close>

theorem saveToken_corrupt_file:
  assumes "tokensFile fs = Corrupt"
    and "writable fs"
    and "ordinary_key (environmentKey tc)"
  shows "tokensFile (fst (saveToken pl now tc td fs))
           = Holds [(environmentKey tc, cacheData now tc td), (''_metadata'', metadata pl now)]
         \<and> (\<forall>B. B \<noteq> environmentKey tc \<and> B \<noteq> ''_metadata''
                \<longrightarrow> stored (fst (saveToken pl now tc td fs)) B = None)"
  using assms
  by (auto simp: saveToken_def saveAllTokens_def loadAllTokens_def Let_def stored_def
                 obj_assign_empty ordinary_key_def)

theorem saveToken_corrupt_file_witness:
  "stored (fst (saveToken example_platform 2000000 example_cache example_token corrupt_file))
     ''staging_thetahealth_ai'' = None
   \<and> stored_field (fst (saveToken example_platform 2000000 example_cache example_token corrupt_file))
       ''mcp_thetahealth_ai'' ''access_token'' = Some (JStr ''abc123'')"
proof -
  have 1: "tokensFile corrupt_file = Corrupt" "writable corrupt_file"
    by (simp_all add: corrupt_file_def)
  have 2: "ordinary_key (environmentKey example_cache)"
    by (simp add: ordinary_key_def example_cache_def)
  show ?thesis
    using saveToken_corrupt_file [OF 1 2, of example_platform 2000000 example_token]
    by (simp add: stored_def stored_field_def example_cache_def cacheData_def field_def
                  example_token_def js_or_def)
qed

section \<open>Properties of outbound requests\<close>

text \<open>
  C9. A request carries the header \<^verbatim>\<open>Authorization: Bearer <token>\<close> exactly when a token
  is held (the cached token is truthy, that is, a non-empty string) and the request is not
  in the unauthenticated allow-list, the allow-list being the three listing methods and
  the \<^verbatim>\<open>tools/call\<close> invocations of a tool whose name is an auth-bootstrap name or a
  listing name.
\<close>

theorem authorization_header:
  "Authorization s data =
     (if truthy (token s) \<and> \<not> allow_listed data
      then Some (''Bearer '' @ ToString (token s)) else None)"
  by (auto simp: Authorization_def needsAuth_def allow_listed_def array_includes_def
                 authNotRequiredTools_def listing_methods_def auth_bootstrap_names_def
           split: option.splits json.splits)

theorem authorization_header_witness:
  "Authorization (fresh_proxy\<lparr>token := Some (JStr ''abc123'')\<rparr>)
     \<lparr>rpc_method = ''tools/call'', name = Some (JStr ''get_health_data'')\<rparr> = Some ''Bearer abc123''
   \<and> Authorization (fresh_proxy\<lparr>token := Some (JStr ''abc123'')\<rparr>)
     \<lparr>rpc_method = ''tools/call'', name = Some (JStr ''start_authentication'')\<rparr> = None
   \<and> Authorization fresh_proxy
     \<lparr>rpc_method = ''tools/call'', name = Some (JStr ''get_health_data'')\<rparr> = None"
  using authorization_header [of "fresh_proxy\<lparr>token := Some (JStr ''abc123'')\<rparr>"
          "\<lparr>rpc_method = ''tools/call'', name = Some (JStr ''get_health_data'')\<rparr>"]
        authorization_header [of "fresh_proxy\<lparr>token := Some (JStr ''abc123'')\<rparr>"
          "\<lparr>rpc_method = ''tools/call'', name = Some (JStr ''start_authentication'')\<rparr>"]
        authorization_header [of fresh_proxy
          "\<lparr>rpc_method = ''tools/call'', name = Some (JStr ''get_health_data'')\<rparr>"]
  by (simp add: fresh_proxy_def allow_listed_def listing_methods_def auth_bootstrap_names_def
                ToString_def)

section \<open>Properties of the polling loop\<close>


lemma bnd_Inr: "bnd m f = Inr r \<longleftrightarrow> (\<exists>x. m = Inr x \<and> f x = Inr r)"
  by (cases m) auto

lemma poll_rescheduled:
  assumes "poll pl session now reply later s = (s', rescheduled)"
  shows "s' = s"
proof (cases "num_gt (Num (now - startTime session))
                (num_mul (ToNumber pl (max_wait_time session)) (Num 1000))")
  case True
  with assms show ?thesis by (simp add: poll_def)
next
  case False
  show ?thesis
  proof (cases reply)
    case (Inl e)
    with assms False show ?thesis by (simp add: poll_def)
  next
    case (Inr response)
    show ?thesis
    proof (cases "poll_try pl later response s")
      case (Inl e)
      with assms False Inr show ?thesis by (simp add: poll_def)
    next
      case inner: (Inr r)
      with assms False Inr have "poll_try pl later response s = Inr (s', rescheduled)"
        by (simp add: poll_def)
      then show ?thesis
        unfolding poll_try_def bnd_Inr
        by (auto simp: Let_def bnd_Inr split: if_splits)
    qed
  qed
qed

lemma polling_loop_waits:
  assumes "\<forall>(now, reply, later) \<in> set earlier.
             snd (poll pl session now reply later s) = rescheduled"
  shows "polling_loop pl session (earlier @ rest) s = polling_loop pl session rest s"
  using assms
proof (induction earlier)
  case Nil
  then show ?case by simp
next
  case (Cons firing earlier)
  obtain now reply later where firing: "firing = (now, reply, later)"
    by (cases firing) auto
  from Cons.prems firing
  have "snd (poll pl session now reply later s) = rescheduled" by simp
  then have "poll pl session now reply later s = (s, rescheduled)"
    using poll_rescheduled [of pl session now reply later s]
    by (cases "poll pl session now reply later s") auto
  moreover from Cons have "polling_loop pl session (earlier @ rest) s
                             = polling_loop pl session rest s" by simp
  ultimately show ?case by (simp add: firing)
qed



section \<open>Properties of the response interceptor\<close>

lemma get_prop_cases:
  "get_prop (Some c) k = Inl TypeError \<and> c = JNull \<or> get_prop (Some c) k = Inr (get_field c k) \<and> c \<noteq> JNull"
  by (cases c) simp_all

lemma substring20_Inr: "substring20 v = Inr t \<Longrightarrow> \<exists>str. v = Some (JStr str)"
  by (auto simp: substring20_def split: option.splits json.splits)

lemma write_calls_saveToken:
  "write_calls (fst (saveToken pl now tc td fs)) = Suc (write_calls fs)"
  by (simp add: saveToken_def saveAllTokens_def Let_def)

lemma handleTokenAuthResponse_cases:
  "handleTokenAuthResponse pl now response s = (s, False)
   \<or> (\<exists>content str td.
         has_first_content (Some response) = Inr True
       \<and> parse_first_text pl (Some response) = Inr content
       \<and> content \<noteq> JNull
       \<and> get_field content ''access_token'' = Some (JStr str)
       \<and> str \<noteq> []
       \<and> \<not> strict_eq (Some (JStr str)) (token s)
       \<and> handleTokenAuthResponse pl now response s
           = (s\<lparr>token := Some (JStr str),
                 files := fst (saveToken pl now (tokenCache s) td (files s))\<rparr>, True))"
proof (cases "has_first_content (Some response)")
  case (Inl e)
  then show ?thesis
    by (simp add: handleTokenAuthResponse_def handleTokenAuthResponse_try_def)
next
  case (Inr guard)
  note g = this
  show ?thesis
  proof (cases guard)
    case False
    with g show ?thesis
      by (simp add: handleTokenAuthResponse_def handleTokenAuthResponse_try_def)
  next
    case True
    show ?thesis
    proof (cases "parse_first_text pl (Some response)")
      case (Inl e)
      with g True show ?thesis
        by (simp add: handleTokenAuthResponse_def handleTokenAuthResponse_try_def)
    next
      case (Inr content)
      note p = this
      show ?thesis
      proof (cases "content = JNull")
        case True
        with g \<open>guard\<close> p show ?thesis
          by (simp add: handleTokenAuthResponse_def handleTokenAuthResponse_try_def)
      next
        case False
        then have gp: "get_prop (Some content) ''access_token''
                        = Inr (get_field content ''access_token'')"
          using get_prop_cases [of content "''access_token''"] by simp
        show ?thesis
        proof (cases "truthy (get_field content ''access_token'')
                      \<and> \<not> strict_eq (get_field content ''access_token'') (token s)")
          case False
          with g \<open>guard\<close> p gp show ?thesis
            by (auto simp: handleTokenAuthResponse_def handleTokenAuthResponse_try_def)
        next
          case True
          note t = this
          show ?thesis
          proof (cases "substring20 (get_field content ''access_token'')")
            case (Inl e)
            with g \<open>guard\<close> p gp t show ?thesis
              by (simp add: handleTokenAuthResponse_def handleTokenAuthResponse_try_def)
          next
            case (Inr shown)
            then obtain str where str: "get_field content ''access_token'' = Some (JStr str)"
              using substring20_Inr by blast
            with g \<open>guard\<close> p gp t Inr \<open>content \<noteq> JNull\<close> show ?thesis
              by (auto simp: handleTokenAuthResponse_def handleTokenAuthResponse_try_def Let_def)
          qed
        qed
      qed
    qed
  qed
qed

lemma handleTokenAuthResponse_same_token:
  assumes "parse_first_text pl (Some response) = Inr content"
    and "get_field content ''access_token'' = token s"
  shows "handleTokenAuthResponse pl now response s = (s, False)"
proof -
  from handleTokenAuthResponse_cases [of pl now response s]
  show ?thesis
  proof
    assume "handleTokenAuthResponse pl now response s = (s, False)"
    then show ?thesis .
  next
    assume "\<exists>content str td.
         has_first_content (Some response) = Inr True
       \<and> parse_first_text pl (Some response) = Inr content
       \<and> content \<noteq> JNull
       \<and> get_field content ''access_token'' = Some (JStr str)
       \<and> str \<noteq> []
       \<and> \<not> strict_eq (Some (JStr str)) (token s)
       \<and> handleTokenAuthResponse pl now response s
           = (s\<lparr>token := Some (JStr str),
                 files := fst (saveToken pl now (tokenCache s) td (files s))\<rparr>, True)"
    then obtain c str where "parse_first_text pl (Some response) = Inr c"
      and "get_field c ''access_token'' = Some (JStr str)"
      and "\<not> strict_eq (Some (JStr str)) (token s)"
      by blast
    with assms have False by simp
    then show ?thesis ..
  qed
qed

lemma CallTool_handler_same_token:
  assumes "parse_first_text pl (Some response) = Inr content"
    and "get_field content ''access_token'' = token s"
    and "\<not> truthy (isAutoOpenBrowserResponse pl response)"
  shows "fst (CallTool_handler pl now (Inr response) s) = s"
  using assms(3) handleTokenAuthResponse_same_token [OF assms(1,2), of now]
  by (simp add: CallTool_handler_def Let_def split: sum.splits)

text \<open>
  C7. When the access token of an intercepted payload is the token the proxy has cached,
  \<^verbatim>\<open>handleTokenAuthResponse\<close> returns false and changes nothing: not the cached token,
  not the tokens file, not the count of writes; and the tool-call handler as a whole
  changes nothing either, unless the same payload also asks for the browser. Hence
  handling one response twice in a row leaves, the second time, the proxy as the first
  handling left it, and the two together call \<^verbatim>\<open>fs.writeFileSync\<close> at most once.
\<close>

theorem repeated_token_not_written:
  "(parse_first_text pl (Some response) = Inr content
      \<and> get_field content ''access_token'' = token s
      \<longrightarrow> handleTokenAuthResponse pl now response s = (s, False))
   \<and> (parse_first_text pl (Some response) = Inr content
      \<and> get_field content ''access_token'' = token s
      \<and> \<not> truthy (isAutoOpenBrowserResponse pl response)
      \<longrightarrow> fst (CallTool_handler pl now (Inr response) s) = s)
   \<and> handleTokenAuthResponse pl later response (fst (handleTokenAuthResponse pl now response s))
       = (fst (handleTokenAuthResponse pl now response s), False)
   \<and> write_calls (files (fst (handleTokenAuthResponse pl later response
                                 (fst (handleTokenAuthResponse pl now response s)))))
       \<le> Suc (write_calls (files s))"
proof -
  have second: "handleTokenAuthResponse pl later response (fst (handleTokenAuthResponse pl now response s))
       = (fst (handleTokenAuthResponse pl now response s), False)"
    and count: "write_calls (files (fst (handleTokenAuthResponse pl now response s)))
       \<le> Suc (write_calls (files s))"
  proof -
    from handleTokenAuthResponse_cases [of pl now response s]
    have "handleTokenAuthResponse pl later response (fst (handleTokenAuthResponse pl now response s))
       = (fst (handleTokenAuthResponse pl now response s), False)
       \<and> write_calls (files (fst (handleTokenAuthResponse pl now response s)))
       \<le> Suc (write_calls (files s))"
    proof
      assume same: "handleTokenAuthResponse pl now response s = (s, False)"
      from handleTokenAuthResponse_cases [of pl later response s]
      have "handleTokenAuthResponse pl later response s = (s, False)"
      proof
        assume "handleTokenAuthResponse pl later response s = (s, False)"
        then show ?thesis .
      next
        assume "\<exists>content str td.
         has_first_content (Some response) = Inr True
       \<and> parse_first_text pl (Some response) = Inr content
       \<and> content \<noteq> JNull
       \<and> get_field content ''access_token'' = Some (JStr str)
       \<and> str \<noteq> []
       \<and> \<not> strict_eq (Some (JStr str)) (token s)
       \<and> handleTokenAuthResponse pl later response s
           = (s\<lparr>token := Some (JStr str),
                 files := fst (saveToken pl later (tokenCache s) td (files s))\<rparr>, True)"
        then obtain content str where
            "has_first_content (Some response) = Inr True"
            "parse_first_text pl (Some response) = Inr content"
            "content \<noteq> JNull"
            "get_field content ''access_token'' = Some (JStr str)"
            "str \<noteq> []"
            "\<not> strict_eq (Some (JStr str)) (token s)"
          by blast
        then have "snd (handleTokenAuthResponse pl now response s) = True"
          using get_prop_cases [of content "''access_token''"]
          by (simp add: handleTokenAuthResponse_def handleTokenAuthResponse_try_def
                        substring20_def Let_def)
        with same show ?thesis by simp
      qed
      with same show ?thesis by simp
    next
      assume "\<exists>content str td.
         has_first_content (Some response) = Inr True
       \<and> parse_first_text pl (Some response) = Inr content
       \<and> content \<noteq> JNull
       \<and> get_field content ''access_token'' = Some (JStr str)
       \<and> str \<noteq> []
       \<and> \<not> strict_eq (Some (JStr str)) (token s)
       \<and> handleTokenAuthResponse pl now response s
           = (s\<lparr>token := Some (JStr str),
                 files := fst (saveToken pl now (tokenCache s) td (files s))\<rparr>, True)"
      then obtain content str td where
          p: "parse_first_text pl (Some response) = Inr content"
          and a: "get_field content ''access_token'' = Some (JStr str)"
          and r: "handleTokenAuthResponse pl now response s
           = (s\<lparr>token := Some (JStr str),
                 files := fst (saveToken pl now (tokenCache s) td (files s))\<rparr>, True)"
        by blast
      let ?s' = "s\<lparr>token := Some (JStr str),
                 files := fst (saveToken pl now (tokenCache s) td (files s))\<rparr>"
      have "get_field content ''access_token'' = token ?s'" using a by simp
      with p have "handleTokenAuthResponse pl later response ?s' = (?s', False)"
        by (rule handleTokenAuthResponse_same_token)
      with r show ?thesis by (simp add: write_calls_saveToken)
    qed
    then show "handleTokenAuthResponse pl later response (fst (handleTokenAuthResponse pl now response s))
       = (fst (handleTokenAuthResponse pl now response s), False)"
      and "write_calls (files (fst (handleTokenAuthResponse pl now response s)))
       \<le> Suc (write_calls (files s))" by simp_all
  qed
  show ?thesis
    using second count handleTokenAuthResponse_same_token [of pl response content s now]
      CallTool_handler_same_token [of pl response content s now]
    by simp
qed

theorem repeated_token_not_written_witness:
  "parse_first_text example_platform (Some (tool_reply auth_text)) = Inr auth_payload
   \<and> get_field auth_payload ''access_token'' = token (fresh_proxy\<lparr>token := Some (JStr ''abc123'')\<rparr>)
   \<and> handleTokenAuthResponse example_platform 2000000 (tool_reply auth_text)
         (fresh_proxy\<lparr>token := Some (JStr ''abc123'')\<rparr>)
       = (fresh_proxy\<lparr>token := Some (JStr ''abc123'')\<rparr>, False)"
proof -
  have 1: "parse_first_text example_platform (Some (tool_reply auth_text)) = Inr auth_payload"
    by (simp add: parse_first_text_def tool_reply_def text_content_def ToString_def
                  example_platform_def example_parse_def)
  have 2: "get_field auth_payload ''access_token''
             = token (fresh_proxy\<lparr>token := Some (JStr ''abc123'')\<rparr>)"
    by (simp add: auth_payload_def)
  show ?thesis
    using 1 2 repeated_token_not_written [of example_platform "tool_reply auth_text" auth_payload
                "fresh_proxy\<lparr>token := Some (JStr ''abc123'')\<rparr>" 2000000 2000000]
    by simp
qed

lemma map_of_field: "map_of (field k v @ rest) k' = (if k' = k \<and> v \<noteq> None then v else map_of rest k')"
  by (auto simp: field_def split: option.splits)

lemma expires_at_cacheData:
  "get_field (cacheData now tc td) ''expires_at''
     = Some (JNum (case expires_at td of
                     Some (Num n) \<Rightarrow> if n \<noteq> 0 then n else now + seven_days
                   | Some NaN \<Rightarrow> now + seven_days
                   | None \<Rightarrow> now + seven_days))"
  by (auto simp: cacheData_def field_def js_or_def split: option.splits)

lemma access_token_cacheData:
  "get_field (cacheData now tc td) ''access_token'' = access_token td"
  by (auto simp: cacheData_def field_def js_or_def split: option.splits)

lemma stored_saveToken:
  assumes "writable fs" and "ordinary_key (environmentKey tc)"
  shows "stored (fst (saveToken pl now tc td fs)) (environmentKey tc) = Some (cacheData now tc td)"
  using assms
  by (simp add: saveToken_def saveAllTokens_def Let_def stored_def map_of_obj_put
                obj_assign_def ordinary_key_def)

lemma stored_field_saveToken:
  assumes "writable fs" and "ordinary_key (environmentKey tc)"
  shows "stored_field (fst (saveToken pl now tc td fs)) (environmentKey tc) f
           = get_field (cacheData now tc td) f"
  using stored_saveToken [OF assms] by (simp add: stored_field_def)






section \<open>Properties of a completed authorization\<close>

lemma poll_completed:
  assumes "\<not> num_gt (Num (now - startTime session))
                     (num_mul (ToNumber pl (max_wait_time session)) (Num 1000))"
    and "get_field response ''status'' = Some (JStr ''completed'')"
    and "get_field response ''token'' = Some (JStr tok)"
  shows "poll pl session now (Inr response) later s
           = (s\<lparr>files := fst (saveToken pl later (tokenCache s)
                  \<lparr>access_token = Some (JStr tok),
                   token_type = get_field response ''token_type'',
                   expires_at = Some (Num (later + seven_days)),
                   refresh_token = None, scope = None\<rparr> (files s)),
                token := Some (JStr tok)\<rparr>, completed)"
proof -
  from assms(2) have "response \<noteq> JNull" by auto
  then have "get_prop (Some response) ''status'' = Inr (Some (JStr ''completed''))"
    using get_prop_cases [of response "''status''"] assms(2) by simp
  with assms show ?thesis
    by (simp add: poll_def poll_try_def substring20_def Let_def)
qed

text \<open>
  C5 (amended). Every firing of the timer so far has ended in another timer, and the next
  run of \<^verbatim>\<open>poll\<close> starts before the timeout and gets the answer \<^verbatim>\<open>completed\<close> with a
  token (a string, such as \<^verbatim>\<open>"abc123"\<close>). Then the loop ends there: no further timer is
  set, the token becomes the cached token and, the write succeeding under an ordinary
  environment key, the stored record has that access token and expires seven days after
  the moment the answer has arrived (not after the start of the session), whether or not
  the answer declares a lifetime.
\<close>

theorem polling_completed:
  assumes "\<forall>(now', reply', later') \<in> set earlier.
             snd (poll pl session now' reply' later' s) = rescheduled"
    and "\<not> num_gt (Num (now - startTime session))
                     (num_mul (ToNumber pl (max_wait_time session)) (Num 1000))"
    and "get_field response ''status'' = Some (JStr ''completed'')"
    and "get_field response ''token'' = Some (JStr tok)"
    and "writable (files s)"
    and "ordinary_key (environmentKey (tokenCache s))"
  shows "\<exists>s'. polling_loop pl session (earlier @ (now, Inr response, later) # rest) s
                  = (s', Some completed)
           \<and> token s' = Some (JStr tok)
           \<and> stored_field (files s') (environmentKey (tokenCache s)) ''access_token''
               = Some (JStr tok)
           \<and> stored_field (files s') (environmentKey (tokenCache s)) ''expires_at''
               = Some (JNum (later + 7 * 24 * 60 * 60 * 1000))"
proof -
  have "later + seven_days \<noteq> 0 \<or> later + seven_days = 0" by simp
  then show ?thesis
    using polling_loop_waits [OF assms(1), of "(now, Inr response, later) # rest"]
      poll_completed [OF assms(2,3,4), of later s] assms(5,6)
    by (auto simp: stored_field_saveToken expires_at_cacheData access_token_cacheData
                   seven_days_def)
qed

theorem polling_completed_witness:
  "snd (polling_loop example_platform example_session
          (waiting @ [(1009200, Inr completed_reply, 1009350)]) fresh_proxy) = Some completed
   \<and> token (fst (polling_loop example_platform example_session
          (waiting @ [(1009200, Inr completed_reply, 1009350)]) fresh_proxy))
       = Some (JStr ''abc123'')
   \<and> stored_field (files (fst (polling_loop example_platform example_session
          (waiting @ [(1009200, Inr completed_reply, 1009350)]) fresh_proxy)))
        ''mcp_thetahealth_ai'' ''access_token'' = Some (JStr ''abc123'')
   \<and> stored_field (files (fst (polling_loop example_platform example_session
          (waiting @ [(1009200, Inr completed_reply, 1009350)]) fresh_proxy)))
        ''mcp_thetahealth_ai'' ''expires_at'' = Some (JNum 605809350)"
proof -
  have 0: "\<forall>(now', reply', later') \<in> set waiting.
             snd (poll example_platform example_session now' reply' later' fresh_proxy)
               = rescheduled"
    by (simp add: waiting_def poll_def poll_try_def example_session_def pending_reply_def)
  have 1: "\<not> num_gt (Num (1009200 - startTime example_session))
                     (num_mul (ToNumber example_platform (max_wait_time example_session)) (Num 1000))"
    by (simp add: example_session_def)
  have 2: "get_field completed_reply ''status'' = Some (JStr ''completed'')"
    and 3: "get_field completed_reply ''token'' = Some (JStr ''abc123'')"
    by (simp_all add: completed_reply_def)
  have 4: "writable (files fresh_proxy)" by (simp add: fresh_proxy_def no_file_def)
  have 5: "ordinary_key (environmentKey (tokenCache fresh_proxy))"
    by (simp add: fresh_proxy_def example_cache_def ordinary_key_def)
  from polling_completed [OF 0 1 2 3 4 5, where later = 1009350 and rest = "[]"]
  show ?thesis by (auto simp: fresh_proxy_def example_cache_def)
qed

text \<open>
  C5 as stated fails: the session started at 1000000, the answer \<^verbatim>\<open>completed\<close> is
  handled at 1009350, and the record stored expires at 1009350 plus seven days, which is
  not the start time plus seven days.
\<close>

theorem polling_expiry_counts_from_completion:
  "startTime example_session = 1000000
   \<and> snd (polling_loop example_platform example_session
          (waiting @ [(1009200, Inr completed_reply, 1009350)]) fresh_proxy) = Some completed
   \<and> stored_field (files (fst (polling_loop example_platform example_session
          (waiting @ [(1009200, Inr completed_reply, 1009350)]) fresh_proxy)))
        ''mcp_thetahealth_ai'' ''expires_at'' = Some (JNum (1009350 + seven_days))
   \<and> (1009350 :: int) + seven_days \<noteq> startTime example_session + seven_days"
  by code_simp

section \<open>Properties of the tool-call handler\<close>










section \<open>Properties of the browser debounce\<close>







section \<open>Properties of a refresh\<close>








end
